theory Spec2Isabelle
  imports Complex_Main
begin

section \<open>JavaScript numbers\<close>

text \<open>
  The calculator of \<^verbatim>\<open>src/components/InventoryTurnoverCalculator.tsx\<close> computes with
  JavaScript numbers. A number is modelled as a real, or one of the IEEE 754 special values:
  negative zero, the two infinities and NaN. \<open>Fin 0\<close> is positive zero.

  What the model keeps of IEEE 754 arithmetic is its table of special cases (signed zeros,
  infinities, NaN, division by zero) and overflow: a result whose magnitude reaches
  \<open>2^1024 - 2^970\<close> is an infinity, as round-to-nearest gives it. What it leaves out is the
  rounding of a finite result to 53 significant bits and underflow: a finite result is kept
  as the exact real.
\<close>

datatype jsnum = Fin real | NegZero | PInf | NInf | NaN

definition overflowThreshold :: real where
  "overflowThreshold = 2 ^ 1024 - 2 ^ 970"

definition overflowToInf :: "real \<Rightarrow> jsnum" where
  "overflowToInf r =
     (if overflowThreshold \<le> r then PInf
      else if r \<le> - overflowThreshold then NInf
      else Fin r)"

fun signBit :: "jsnum \<Rightarrow> bool" where
  "signBit (Fin r) = (r < 0)"
| "signBit NegZero = True"
| "signBit PInf = False"
| "signBit NInf = True"
| "signBit NaN = False"

fun isZero :: "jsnum \<Rightarrow> bool" where
  "isZero (Fin r) = (r = 0)"
| "isZero NegZero = True"
| "isZero PInf = False"
| "isZero NInf = False"
| "isZero NaN = False"

fun isInf :: "jsnum \<Rightarrow> bool" where
  "isInf PInf = True"
| "isInf NInf = True"
| "isInf (Fin r) = False"
| "isInf NegZero = False"
| "isInf NaN = False"

fun realValue :: "jsnum \<Rightarrow> real" where
  "realValue (Fin r) = r"
| "realValue NegZero = 0"
| "realValue PInf = 0"
| "realValue NInf = 0"
| "realValue NaN = 0"

definition signedZero :: "bool \<Rightarrow> jsnum" where
  "signedZero negative = (if negative then NegZero else Fin 0)"

definition signedInf :: "bool \<Rightarrow> jsnum" where
  "signedInf negative = (if negative then NInf else PInf)"

text \<open>The operator \<^verbatim>\<open>+\<close> on two numbers.\<close>

fun jsadd :: "jsnum \<Rightarrow> jsnum \<Rightarrow> jsnum" where
  "jsadd NaN y = NaN"
| "jsadd x NaN = NaN"
| "jsadd PInf NInf = NaN"
| "jsadd NInf PInf = NaN"
| "jsadd PInf y = PInf"
| "jsadd x PInf = PInf"
| "jsadd NInf y = NInf"
| "jsadd x NInf = NInf"
| "jsadd NegZero y = y"
| "jsadd x NegZero = x"
| "jsadd (Fin a) (Fin b) = overflowToInf (a + b)"

text \<open>
  The operator \<^verbatim>\<open>/\<close> on two numbers. Nothing is raised on a zero divisor: a non-zero
  dividend gives an infinity, a zero dividend gives NaN.
\<close>

definition jsdiv :: "jsnum \<Rightarrow> jsnum \<Rightarrow> jsnum" where
  "jsdiv x y =
     (if x = NaN \<or> y = NaN then NaN
      else if isInf x then
        (if isInf y then NaN else signedInf (signBit x \<noteq> signBit y))
      else if isInf y then signedZero (signBit x \<noteq> signBit y)
      else if isZero y then
        (if isZero x then NaN else signedInf (signBit x \<noteq> signBit y))
      else if isZero x then signedZero (signBit x \<noteq> signBit y)
      else overflowToInf (realValue x / realValue y))"

text \<open>
  The operators \<^verbatim>\<open><\<close> and \<^verbatim>\<open>>\<close>: false whenever an operand is NaN; the two zeros
  compare equal.
\<close>

fun jslt :: "jsnum \<Rightarrow> jsnum \<Rightarrow> bool" where
  "jslt NaN y = False"
| "jslt x NaN = False"
| "jslt PInf y = False"
| "jslt x NInf = False"
| "jslt NInf y = True"
| "jslt x PInf = True"
| "jslt x y = (realValue x < realValue y)"

definition jsgt :: "jsnum \<Rightarrow> jsnum \<Rightarrow> bool" where
  "jsgt x y = jslt y x"

text \<open>
  \<^verbatim>\<open>x || y\<close> on numbers: \<^verbatim>\<open>x\<close> when it is truthy, else \<^verbatim>\<open>y\<close>. The falsy numbers
  are the two zeros and NaN.
\<close>

fun truthy :: "jsnum \<Rightarrow> bool" where
  "truthy (Fin r) = (r \<noteq> 0)"
| "truthy NegZero = False"
| "truthy PInf = True"
| "truthy NInf = True"
| "truthy NaN = False"

definition jsor :: "jsnum \<Rightarrow> jsnum \<Rightarrow> jsnum" where
  "jsor x y = (if truthy x then x else y)"

section \<open>The global function parseFloat\<close>

text \<open>
  \<^verbatim>\<open>parseFloat(text)\<close> skips leading white space and reads the longest prefix of the
  rest that is a decimal literal: an optional sign, then \<^verbatim>\<open>Infinity\<close>, or digits with an
  optional fraction (\<^verbatim>\<open>12\<close>, \<^verbatim>\<open>12.\<close>, \<^verbatim>\<open>12.5\<close>, \<^verbatim>\<open>.5\<close>) and an optional exponent.
  Whatever follows the prefix is ignored; with no such prefix the result is NaN.
  Text is a list of characters with codes below 256, so the white space is the six ASCII
  characters and the no-break space.
\<close>

definition isWhiteSpace :: "char \<Rightarrow> bool" where
  "isWhiteSpace c =
     (c \<in> {CHR 0x09, CHR 0x0A, CHR 0x0B, CHR 0x0C, CHR 0x0D, CHR 0x20, CHR 0xA0})"

definition isDecimalDigit :: "char \<Rightarrow> bool" where
  "isDecimalDigit c = (c \<in> set ''0123456789'')"

definition digitsValue :: "string \<Rightarrow> nat" where
  "digitsValue ds = foldl (\<lambda>acc c. 10 * acc + (of_char c - 48)) 0 ds"

text \<open>An optional sign: whether it is a minus, and the text after it.\<close>

fun stripSign :: "string \<Rightarrow> bool \<times> string" where
  "stripSign [] = (False, [])"
| "stripSign (c # cs) =
     (if c = CHR ''-'' then (True, cs)
      else if c = CHR ''+'' then (False, cs)
      else (False, c # cs))"

text \<open>
  The exponent part after the mantissa: \<^verbatim>\<open>e\<close> or \<^verbatim>\<open>E\<close>, an optional sign and at least
  one digit. Anything else is not part of the literal, and the exponent is 0.
\<close>

fun exponentValue :: "string \<Rightarrow> int" where
  "exponentValue [] = 0"
| "exponentValue (c # cs) =
     (if c = CHR ''e'' \<or> c = CHR ''E'' then
        (let (negative, rest) = stripSign cs;
             ds = takeWhile isDecimalDigit rest
         in if ds = [] then 0
            else if negative then - int (digitsValue ds)
            else int (digitsValue ds))
      else 0)"

definition scale10 :: "real \<Rightarrow> int \<Rightarrow> real" where
  "scale10 m e = (if 0 \<le> e then m * 10 ^ nat e else m / 10 ^ nat (- e))"

definition parseFloat :: "string \<Rightarrow> jsnum" where
  "parseFloat inputString =
     (let trimmed = dropWhile isWhiteSpace inputString;
          (negative, unsigned) = stripSign trimmed
      in if take 8 unsigned = ''Infinity'' then signedInf negative
         else
           let intDigits = takeWhile isDecimalDigit unsigned;
               afterInt = dropWhile isDecimalDigit unsigned;
               hasDot = (afterInt \<noteq> [] \<and> hd afterInt = CHR ''.'');
               fracDigits = (if hasDot then takeWhile isDecimalDigit (tl afterInt) else []);
               afterMantissa =
                 (if hasDot then dropWhile isDecimalDigit (tl afterInt) else afterInt)
           in if intDigits = [] \<and> fracDigits = [] then NaN
              else
                let mantissa =
                      real (digitsValue intDigits)
                      + real (digitsValue fracDigits) / 10 ^ length fracDigits;
                    magnitude = scale10 mantissa (exponentValue afterMantissa)
                in if magnitude = 0 then signedZero negative
                   else overflowToInf (if negative then - magnitude else magnitude))"

section \<open>The component's state\<close>

text \<open>
  \<^verbatim>\<open>type CalculationMethod = 'cogs' | 'average'\<close> is a string at run time, and
  \<^verbatim>\<open>handleMethodChange\<close> stores the string it is given without a check, so the method is
  kept as a string. \<^verbatim>\<open>interface CalculatorValues\<close> is the record of the four inputs.
\<close>

type_synonym CalculationMethod = string

record CalculatorValues =
  costOfGoodsSold :: jsnum
  beginningInventory :: jsnum
  endingInventory :: jsnum
  averageInventory :: jsnum

text \<open>An entry of a chart's data: \<^verbatim>\<open>{ name: ..., value: ... }\<close>.\<close>

record ChartEntry =
  name :: string
  "value" :: jsnum

text \<open>The six \<^verbatim>\<open>useState\<close> cells of \<^verbatim>\<open>InventoryTurnoverCalculator\<close>.\<close>

record ComponentState =
  "method" :: CalculationMethod
  "values" :: CalculatorValues
  turnoverRatio :: jsnum
  daysToSell :: jsnum
  benchmarkData :: "ChartEntry list"
  comparisonData :: "ChartEntry list"

definition initialState :: ComponentState where
  "initialState =
     \<lparr>method = ''cogs'',
      values = \<lparr>costOfGoodsSold = Fin 1000000,
                beginningInventory = Fin 250000,
                endingInventory = Fin 150000,
                averageInventory = Fin 200000\<rparr>,
      turnoverRatio = Fin 0,
      daysToSell = Fin 0,
      benchmarkData = [],
      comparisonData = []\<rparr>"

section \<open>calculateResults\<close>

text \<open>
  The two locals of \<^verbatim>\<open>calculateResults\<close>, \<^verbatim>\<open>inventoryValue\<close> and \<^verbatim>\<open>ratio\<close>, as the
  \<^verbatim>\<open>if (method === 'cogs') ... else ...\<close> statement assigns them. Every method other
  than \<^verbatim>\<open>'cogs'\<close> takes the second branch.
\<close>

definition calculateLocals :: "CalculationMethod \<Rightarrow> CalculatorValues \<Rightarrow> jsnum \<times> jsnum" where
  "calculateLocals m v =
     (if m = ''cogs'' then
        (let inventoryValue = jsdiv (jsadd (beginningInventory v) (endingInventory v)) (Fin 2);
             ratio = jsdiv (costOfGoodsSold v) inventoryValue
         in (inventoryValue, ratio))
      else
        (let inventoryValue = averageInventory v;
             ratio = jsdiv (costOfGoodsSold v) inventoryValue
         in (inventoryValue, ratio)))"

definition inventoryValue :: "CalculationMethod \<Rightarrow> CalculatorValues \<Rightarrow> jsnum" where
  "inventoryValue m v = fst (calculateLocals m v)"

definition calculateResults :: "ComponentState \<Rightarrow> ComponentState" where
  "calculateResults s =
     (let ratio = snd (calculateLocals (method s) (values s))
      in s\<lparr>turnoverRatio := ratio,
            daysToSell := jsdiv (Fin 365) ratio,
            benchmarkData :=
              [\<lparr>name = ''Apparel'', value = Fin 4.5\<rparr>,
               \<lparr>name = ''Electronics'', value = Fin 5.2\<rparr>,
               \<lparr>name = ''Grocery'', value = Fin 12.8\<rparr>,
               \<lparr>name = ''Furniture'', value = Fin 2.3\<rparr>,
               \<lparr>name = ''General Retail'', value = Fin 3.8\<rparr>],
            comparisonData :=
              [\<lparr>name = ''Your Business'', value = ratio\<rparr>,
               \<lparr>name = ''Industry Avg.'', value = Fin 3.8\<rparr>]\<rparr>)"

section \<open>The event handlers\<close>

text \<open>
  \<^verbatim>\<open>{...values, [name]: v}\<close>: the copy of \<^verbatim>\<open>values\<close> with the property \<^verbatim>\<open>name\<close> set.
  A name that is none of the four fields adds a property that nothing reads, and leaves
  the four fields as they are.
\<close>

definition setField :: "string \<Rightarrow> jsnum \<Rightarrow> CalculatorValues \<Rightarrow> CalculatorValues" where
  "setField field v vals =
     (if field = ''costOfGoodsSold'' then vals\<lparr>costOfGoodsSold := v\<rparr>
      else if field = ''beginningInventory'' then vals\<lparr>beginningInventory := v\<rparr>
      else if field = ''endingInventory'' then vals\<lparr>endingInventory := v\<rparr>
      else if field = ''averageInventory'' then vals\<lparr>averageInventory := v\<rparr>
      else vals)"

text \<open>
  \<^verbatim>\<open>handleInputChange(e)\<close>, with \<^verbatim>\<open>e.target.name\<close> and \<^verbatim>\<open>e.target.value\<close> as its two
  arguments.
\<close>

definition handleInputChange :: "string \<Rightarrow> string \<Rightarrow> ComponentState \<Rightarrow> ComponentState" where
  "handleInputChange field text s =
     s\<lparr>values := setField field (jsor (parseFloat text) (Fin 0)) (values s)\<rparr>"

definition handleMethodChange :: "string \<Rightarrow> ComponentState \<Rightarrow> ComponentState" where
  "handleMethodChange v s = s\<lparr>method := v\<rparr>"

text \<open>
  \<^verbatim>\<open>useEffect(() => { calculateResults(); }, [values, method])\<close> runs \<^verbatim>\<open>calculateResults\<close>
  after the first render and after every render that follows a handler's update: an
  event is its handler followed by \<^verbatim>\<open>calculateResults\<close>.
\<close>

definition inputEvent :: "string \<Rightarrow> string \<Rightarrow> ComponentState \<Rightarrow> ComponentState" where
  "inputEvent field text s = calculateResults (handleInputChange field text s)"

definition methodEvent :: "string \<Rightarrow> ComponentState \<Rightarrow> ComponentState" where
  "methodEvent v s = calculateResults (handleMethodChange v s)"

section \<open>The descriptions under the two results\<close>

text \<open>
  The two conditional expressions of the results panel, on \<^verbatim>\<open>turnoverRatio\<close> and on
  \<^verbatim>\<open>daysToSell\<close>.
\<close>

definition turnoverDescription :: "jsnum \<Rightarrow> string" where
  "turnoverDescription r =
     (if jslt r (Fin 2) then ''Low turnover - consider reducing inventory levels''
      else if jsgt r (Fin 6) then ''High turnover - efficient inventory management''
      else ''Average turnover - within normal retail range'')"

definition daysDescription :: "jsnum \<Rightarrow> string" where
  "daysDescription d =
     (if jsgt d (Fin 180) then ''Your inventory takes a long time to sell''
      else if jslt d (Fin 60) then ''Your inventory sells very quickly''
      else ''Your inventory sells at an average pace'')"

section \<open>The text that parseFloat reads as a number\<close>




section \<open>Input sets of the scenarios\<close>

text \<open>
  Cost of goods sold 500,000 with both inventories 0, under the method \<^verbatim>\<open>'cogs'\<close>.
\<close>

definition zeroInventoryState :: ComponentState where
  "zeroInventoryState =
     initialState\<lparr>values := \<lparr>costOfGoodsSold = Fin 500000,
                              beginningInventory = Fin 0,
                              endingInventory = Fin 0,
                              averageInventory = Fin 200000\<rparr>\<rparr>"

text \<open>The three inventory fields all equal to \<open>X\<close>.\<close>

definition equalInventories :: "jsnum \<Rightarrow> jsnum \<Rightarrow> CalculatorValues" where
  "equalInventories c X =
     \<lparr>costOfGoodsSold = c, beginningInventory = X, endingInventory = X, averageInventory = X\<rparr>"


text \<open>The initial inputs with results left over from another run.\<close>

definition staleState :: ComponentState where
  "staleState = initialState\<lparr>turnoverRatio := Fin 42, daysToSell := NaN,
     comparisonData := [\<lparr>name = ''Your Business'', value = Fin 42\<rparr>]\<rparr>"

section \<open>Facts about the arithmetic\<close>

lemmas arith_defs = jsdiv_def signedZero_def signedInf_def overflowToInf_def overflowThreshold_def

lemmas calc_defs = calculateResults_def calculateLocals_def inventoryValue_def

lemmas parse_defs = parseFloat_def isWhiteSpace_def isDecimalDigit_def digitsValue_def scale10_def

lemma overflowToInf_small:
  "\<bar>r\<bar> < overflowThreshold \<Longrightarrow> overflowToInf r = Fin r"
  by (auto simp: overflowToInf_def)







lemma jsdiv_by_zero:
  "isZero y \<Longrightarrow> jsdiv x y = PInf \<or> jsdiv x y = NInf \<or> jsdiv x y = NaN"
  by (cases y; cases x) (simp_all add: jsdiv_def signedInf_def)

lemma jsdiv_365_special:
  "r = PInf \<or> r = NInf \<or> r = NaN \<Longrightarrow>
   jsdiv (Fin 365) r = Fin 0 \<or> jsdiv (Fin 365) r = NegZero \<or> jsdiv (Fin 365) r = NaN"
  by (auto simp: jsdiv_def signedZero_def)

lemma halve_double:
  assumes "\<And>x. X = Fin x \<Longrightarrow> \<bar>x\<bar> < overflowThreshold / 2"
  shows "jsdiv (jsadd X X) (Fin 2) = X"
proof (cases X)
  case (Fin x)
  then have "\<bar>x\<bar> < overflowThreshold / 2" by (rule assms)
  then have "\<bar>x + x\<bar> < overflowThreshold" and "\<bar>x\<bar> < overflowThreshold" by simp_all
  then have "jsadd X X = Fin (x + x)" and small: "overflowToInf x = Fin x"
    using Fin by (simp_all add: overflowToInf_small)
  then show ?thesis using Fin
    by (cases "x = 0") (simp_all add: jsdiv_def signedZero_def)
qed (simp_all add: jsdiv_def signedZero_def signedInf_def)


lemma not_low_and_high: "jslt r (Fin 2) \<Longrightarrow> \<not> jslt (Fin 6) r"
  by (cases r) simp_all

lemma not_slow_and_fast: "jslt (Fin 180) d \<Longrightarrow> \<not> jslt d (Fin 60)"
  by (cases d) simp_all

section \<open>Facts about calculateResults and parseFloat\<close>

lemma ratio_eq: "turnoverRatio (calculateResults s)
    = jsdiv (costOfGoodsSold (values s)) (inventoryValue (method s) (values s))"
  by (simp add: calculateResults_def inventoryValue_def calculateLocals_def Let_def)

lemma dsi_eq: "daysToSell (calculateResults s) = jsdiv (Fin 365) (turnoverRatio (calculateResults s))"
  by (simp add: calculateResults_def Let_def)




section \<open>The ratio and the days of inventory\<close>



section \<open>A zero inventory\<close>

text \<open>
  C2, as the code has it. \<^verbatim>\<open>calculateResults\<close> divides without a guard and substitutes no
  sentinel. When the effective average inventory is a zero, the stored ratio is
  \<open>Infinity\<close>, \<open>-Infinity\<close> or \<open>NaN\<close>, and the stored days of inventory are \<open>0\<close>, \<open>-0\<close> or
  \<open>NaN\<close>; with a positive cost of goods sold over the zero \<open>Fin 0\<close> the ratio is \<open>Infinity\<close>
  and the days are \<open>0\<close>.
\<close>

theorem zero_inventory_unguarded:
  assumes "isZero (inventoryValue (method s) (values s))"
  shows "(turnoverRatio (calculateResults s) = PInf
          \<or> turnoverRatio (calculateResults s) = NInf
          \<or> turnoverRatio (calculateResults s) = NaN)
       \<and> (daysToSell (calculateResults s) = Fin 0
          \<or> daysToSell (calculateResults s) = NegZero
          \<or> daysToSell (calculateResults s) = NaN)
       \<and> (inventoryValue (method s) (values s) = Fin 0
            \<and> jslt (Fin 0) (costOfGoodsSold (values s))
          \<longrightarrow> turnoverRatio (calculateResults s) = PInf
            \<and> daysToSell (calculateResults s) = Fin 0)"
proof -
  have r: "turnoverRatio (calculateResults s) = PInf
          \<or> turnoverRatio (calculateResults s) = NInf
          \<or> turnoverRatio (calculateResults s) = NaN"
    unfolding ratio_eq using assms by (rule jsdiv_by_zero)
  have d: "daysToSell (calculateResults s) = Fin 0
          \<or> daysToSell (calculateResults s) = NegZero
          \<or> daysToSell (calculateResults s) = NaN"
    unfolding dsi_eq using r by (rule jsdiv_365_special)
  have p: "turnoverRatio (calculateResults s) = PInf \<and> daysToSell (calculateResults s) = Fin 0"
    if "inventoryValue (method s) (values s) = Fin 0" "jslt (Fin 0) (costOfGoodsSold (values s))"
  proof -
    from that have "turnoverRatio (calculateResults s) = PInf"
      unfolding ratio_eq by (cases "costOfGoodsSold (values s)") (simp_all add: jsdiv_def signedInf_def)
    then show ?thesis by (simp add: dsi_eq jsdiv_def signedZero_def)
  qed
  from r d p show ?thesis by blast
qed

theorem zero_inventory_unguarded_witness:
  "isZero (inventoryValue (method zeroInventoryState) (values zeroInventoryState))
   \<and> turnoverRatio (calculateResults zeroInventoryState) = PInf
   \<and> daysToSell (calculateResults zeroInventoryState) = Fin 0"
proof -
  have inv: "inventoryValue (method zeroInventoryState) (values zeroInventoryState) = Fin 0"
    by (simp add: zeroInventoryState_def initialState_def inventoryValue_def calculateLocals_def
        arith_defs Let_def)
  have z: "isZero (inventoryValue (method zeroInventoryState) (values zeroInventoryState))"
    by (simp add: inv)
  have c: "jslt (Fin 0) (costOfGoodsSold (values zeroInventoryState))"
    by (simp add: zeroInventoryState_def)
  from zero_inventory_unguarded [OF z] inv c z show ?thesis by blast
qed

text \<open>
  The third scenario of the specification, cost of goods sold 500,000 over the inventories
  0 and 0: the effective average inventory is 0 and the ratio that is stored, and shown, is
  \<open>Infinity\<close>.
\<close>

theorem zero_inventory_counterexample:
  "inventoryValue (method zeroInventoryState) (values zeroInventoryState) = Fin 0
   \<and> turnoverRatio (calculateResults zeroInventoryState) = PInf"
  by (simp add: zeroInventoryState_def initialState_def calculateResults_def inventoryValue_def
      calculateLocals_def arith_defs Let_def)

section \<open>The two methods on equal inventories\<close>

text \<open>
  C3, as the code has it. With the beginning, ending and average inventory all equal to
  \<open>X\<close>, the two methods store the same ratio and the same days of inventory for every
  cost of goods sold, provided that \<open>X + X\<close> does not overflow: \<open>X\<close> is finite with
  \<open>\<bar>X\<bar>\<close> below half of the overflow threshold, or \<open>X\<close> is a zero, an infinity or NaN.
\<close>

theorem mode_equivalence_in_range:
  assumes "\<And>x. X = Fin x \<Longrightarrow> \<bar>x\<bar> < overflowThreshold / 2"
  shows "turnoverRatio (calculateResults (s\<lparr>method := ''cogs'', values := equalInventories c X\<rparr>))
         = turnoverRatio (calculateResults (s\<lparr>method := ''average'', values := equalInventories c X\<rparr>))
       \<and> daysToSell (calculateResults (s\<lparr>method := ''cogs'', values := equalInventories c X\<rparr>))
         = daysToSell (calculateResults (s\<lparr>method := ''average'', values := equalInventories c X\<rparr>))"
  using halve_double [OF assms]
  by (simp add: calculateResults_def calculateLocals_def equalInventories_def Let_def)

theorem mode_equivalence_in_range_witness:
  "\<bar>200000::real\<bar> < overflowThreshold / 2
   \<and> turnoverRatio (calculateResults
        (initialState\<lparr>method := ''cogs'', values := equalInventories (Fin 1000000) (Fin 200000)\<rparr>))
     = turnoverRatio (calculateResults
        (initialState\<lparr>method := ''average'', values := equalInventories (Fin 1000000) (Fin 200000)\<rparr>))
   \<and> turnoverRatio (calculateResults
        (initialState\<lparr>method := ''average'', values := equalInventories (Fin 1000000) (Fin 200000)\<rparr>))
     = Fin 5"
proof -
  have h: "\<bar>200000::real\<bar> < overflowThreshold / 2"
    by (simp add: overflowThreshold_def)
  then have r: "\<bar>x\<bar> < overflowThreshold / 2" if "Fin 200000 = Fin x" for x
    using that by simp
  note eq = mode_equivalence_in_range [where X = "Fin 200000" and s = initialState
      and c = "Fin 1000000", OF r]
  have "turnoverRatio (calculateResults
        (initialState\<lparr>method := ''average'', values := equalInventories (Fin 1000000) (Fin 200000)\<rparr>))
     = Fin 5"
    by (simp add: initialState_def equalInventories_def calculateResults_def calculateLocals_def
      arith_defs Let_def)
  with h eq show ?thesis by simp
qed

text \<open>
  For \<open>X = 1e308\<close> the sum \<open>X + X\<close> is \<open>Infinity\<close>: under \<^verbatim>\<open>'cogs'\<close> the ratio of a cost of
  goods sold of \<open>1e308\<close> is \<open>0\<close> and the days are \<open>Infinity\<close>, under \<^verbatim>\<open>'average'\<close> they are
  \<open>1\<close> and \<open>365\<close>.
\<close>

theorem mode_equivalence_counterexample:
  "turnoverRatio (calculateResults
      (initialState\<lparr>method := ''cogs'', values := equalInventories (Fin (10 ^ 308)) (Fin (10 ^ 308))\<rparr>))
     = Fin 0
   \<and> turnoverRatio (calculateResults
      (initialState\<lparr>method := ''average'', values := equalInventories (Fin (10 ^ 308)) (Fin (10 ^ 308))\<rparr>))
     = Fin 1
   \<and> daysToSell (calculateResults
      (initialState\<lparr>method := ''cogs'', values := equalInventories (Fin (10 ^ 308)) (Fin (10 ^ 308))\<rparr>))
     = PInf
   \<and> daysToSell (calculateResults
      (initialState\<lparr>method := ''average'', values := equalInventories (Fin (10 ^ 308)) (Fin (10 ^ 308))\<rparr>))
     = Fin 365"
  by (simp add: initialState_def equalInventories_def calculateResults_def calculateLocals_def
      arith_defs Let_def)

section \<open>The descriptions and their thresholds\<close>

text \<open>
  C4. The description of the ratio is the low-turnover one exactly when \<^verbatim>\<open>turnoverRatio < 2\<close>,
  the high-turnover one exactly when \<^verbatim>\<open>turnoverRatio > 6\<close>, and the average one otherwise;
  the description of the days is the slow one exactly when \<^verbatim>\<open>daysToSell > 180\<close>, the fast
  one exactly when \<^verbatim>\<open>daysToSell < 60\<close>, and the average-pace one otherwise. A ratio of
  exactly 2 is not low and a ratio of exactly 6 is not high: both are average. On finite
  numbers the two comparisons are the strict orders of the reals.
\<close>

theorem description_thresholds:
  "(turnoverDescription r = ''Low turnover - consider reducing inventory levels''
      \<longleftrightarrow> jslt r (Fin 2))
   \<and> (turnoverDescription r = ''High turnover - efficient inventory management''
      \<longleftrightarrow> jsgt r (Fin 6))
   \<and> (turnoverDescription r = ''Average turnover - within normal retail range''
      \<longleftrightarrow> \<not> jslt r (Fin 2) \<and> \<not> jsgt r (Fin 6))
   \<and> (daysDescription d = ''Your inventory takes a long time to sell''
      \<longleftrightarrow> jsgt d (Fin 180))
   \<and> (daysDescription d = ''Your inventory sells very quickly''
      \<longleftrightarrow> jslt d (Fin 60))
   \<and> (daysDescription d = ''Your inventory sells at an average pace''
      \<longleftrightarrow> \<not> jsgt d (Fin 180) \<and> \<not> jslt d (Fin 60))
   \<and> turnoverDescription (Fin 2) = ''Average turnover - within normal retail range''
   \<and> turnoverDescription (Fin 6) = ''Average turnover - within normal retail range''
   \<and> jslt (Fin x) (Fin 2) = (x < 2) \<and> jsgt (Fin x) (Fin 6) = (x > 6)
   \<and> jsgt (Fin x) (Fin 180) = (x > 180) \<and> jslt (Fin x) (Fin 60) = (x < 60)"
proof -
  have t: "(turnoverDescription r = ''Low turnover - consider reducing inventory levels''
      \<longleftrightarrow> jslt r (Fin 2))
   \<and> (turnoverDescription r = ''High turnover - efficient inventory management''
      \<longleftrightarrow> jsgt r (Fin 6))
   \<and> (turnoverDescription r = ''Average turnover - within normal retail range''
      \<longleftrightarrow> \<not> jslt r (Fin 2) \<and> \<not> jsgt r (Fin 6))"
    using not_low_and_high [of r] by (auto simp: turnoverDescription_def jsgt_def)
  have d: "(daysDescription d = ''Your inventory takes a long time to sell''
      \<longleftrightarrow> jsgt d (Fin 180))
   \<and> (daysDescription d = ''Your inventory sells very quickly''
      \<longleftrightarrow> jslt d (Fin 60))
   \<and> (daysDescription d = ''Your inventory sells at an average pace''
      \<longleftrightarrow> \<not> jsgt d (Fin 180) \<and> \<not> jslt d (Fin 60))"
    using not_slow_and_fast [of d] by (auto simp: daysDescription_def jsgt_def)
  have b: "turnoverDescription (Fin 2) = ''Average turnover - within normal retail range''
   \<and> turnoverDescription (Fin 6) = ''Average turnover - within normal retail range''"
    by (simp add: turnoverDescription_def jsgt_def)
  have c: "jslt (Fin x) (Fin 2) = (x < 2) \<and> jsgt (Fin x) (Fin 6) = (x > 6)
   \<and> jsgt (Fin x) (Fin 180) = (x > 180) \<and> jslt (Fin x) (Fin 60) = (x < 60)"
    by (simp add: jsgt_def)
  from t d b c show ?thesis by simp
qed

section \<open>The two default scenarios\<close>


section \<open>What an edit stores\<close>




section \<open>The chart data\<close>


section \<open>The results depend on the method and the inputs only\<close>

text \<open>
  C8. Two runs of \<^verbatim>\<open>calculateResults\<close> from states with the same method and the same
  input fields end in the same state: the same ratio, days of inventory and chart data,
  whatever results the two states held before.
\<close>

theorem calculateResults_pure:
  assumes "method s = method s'" and "values s = values s'"
  shows "calculateResults s = calculateResults s'"
  using assms by (cases s, cases s') (simp add: calculateResults_def Let_def)

theorem calculateResults_pure_witness:
  "method staleState = method initialState \<and> values staleState = values initialState
   \<and> staleState \<noteq> initialState
   \<and> calculateResults staleState = calculateResults initialState"
proof -
  have m: "method staleState = method initialState"
    and v: "values staleState = values initialState"
    and n: "staleState \<noteq> initialState"
    by (simp_all add: staleState_def initialState_def)
  from calculateResults_pure [OF m v] m v n show ?thesis by simp
qed

section \<open>Negative inputs\<close>

text \<open>
  C9. Nothing enforces that a field is non-negative. The text \<^verbatim>\<open>-5\<close> parses to \<open>-5\<close>; an
  edit of the cost of goods sold stores \<open>-5\<close>, \<^verbatim>\<open>calculateResults\<close> divides it as it is, and
  the ratio and the days of inventory that it stores are negative.
\<close>

theorem negative_input_passes_through:
  "parseFloat ''-5'' = Fin (- 5)
   \<and> costOfGoodsSold (values (handleInputChange ''costOfGoodsSold'' ''-5'' initialState)) = Fin (- 5)
   \<and> turnoverRatio (inputEvent ''costOfGoodsSold'' ''-5'' initialState)
       = jsdiv (Fin (- 5)) (Fin 200000)
   \<and> jslt (turnoverRatio (inputEvent ''costOfGoodsSold'' ''-5'' initialState)) (Fin 0)
   \<and> jslt (daysToSell (inputEvent ''costOfGoodsSold'' ''-5'' initialState)) (Fin 0)"
  by (simp add: inputEvent_def handleInputChange_def setField_def jsor_def initialState_def
      parse_defs calc_defs arith_defs Let_def)

section \<open>What the handlers leave unchanged\<close>

text \<open>
  C10. An edit leaves the method and every field other than the named one unchanged, and
  stores the parsed value in the named field; a change of method stores the new method and
  leaves the four fields unchanged. The run of \<^verbatim>\<open>calculateResults\<close> that follows either
  handler changes neither the method nor the fields.
\<close>

theorem handlers_frame:
  "method (handleInputChange field text s) = method s
   \<and> (field \<noteq> ''costOfGoodsSold'' \<longrightarrow>
        costOfGoodsSold (values (handleInputChange field text s)) = costOfGoodsSold (values s))
   \<and> (field \<noteq> ''beginningInventory'' \<longrightarrow>
        beginningInventory (values (handleInputChange field text s)) = beginningInventory (values s))
   \<and> (field \<noteq> ''endingInventory'' \<longrightarrow>
        endingInventory (values (handleInputChange field text s)) = endingInventory (values s))
   \<and> (field \<noteq> ''averageInventory'' \<longrightarrow>
        averageInventory (values (handleInputChange field text s)) = averageInventory (values s))
   \<and> costOfGoodsSold (values (handleInputChange ''costOfGoodsSold'' text s))
        = jsor (parseFloat text) (Fin 0)
   \<and> beginningInventory (values (handleInputChange ''beginningInventory'' text s))
        = jsor (parseFloat text) (Fin 0)
   \<and> endingInventory (values (handleInputChange ''endingInventory'' text s))
        = jsor (parseFloat text) (Fin 0)
   \<and> averageInventory (values (handleInputChange ''averageInventory'' text s))
        = jsor (parseFloat text) (Fin 0)
   \<and> method (handleMethodChange v s) = v
   \<and> values (handleMethodChange v s) = values s
   \<and> method (inputEvent field text s) = method s
   \<and> values (inputEvent field text s) = values (handleInputChange field text s)
   \<and> method (methodEvent v s) = v
   \<and> values (methodEvent v s) = values s"
  by (simp add: handleInputChange_def handleMethodChange_def inputEvent_def methodEvent_def
      setField_def calculateResults_def Let_def)

theorem handlers_frame_witness:
  "''endingInventory'' \<noteq> ''costOfGoodsSold''
   \<and> ''endingInventory'' \<noteq> ''beginningInventory''
   \<and> ''endingInventory'' \<noteq> ''averageInventory''
   \<and> values (handleInputChange ''endingInventory'' ''90000'' initialState)
        = \<lparr>costOfGoodsSold = Fin 1000000, beginningInventory = Fin 250000,
           endingInventory = Fin 90000, averageInventory = Fin 200000\<rparr>
   \<and> method (handleInputChange ''endingInventory'' ''90000'' initialState) = ''cogs''
   \<and> values (handleMethodChange ''average'' initialState) = values initialState
   \<and> method (handleMethodChange ''average'' initialState) = ''average''"
proof -
  note f = handlers_frame [of "''endingInventory''" "''90000''" initialState "''average''"]
  have p: "jsor (parseFloat ''90000'') (Fin 0) = Fin 90000"
    by (simp add: jsor_def parse_defs arith_defs Let_def)
  have d: "''endingInventory'' \<noteq> ''costOfGoodsSold''"
    "''endingInventory'' \<noteq> ''beginningInventory''"
    "''endingInventory'' \<noteq> ''averageInventory''"
    by simp_all
  from f d have
    "costOfGoodsSold (values (handleInputChange ''endingInventory'' ''90000'' initialState))
       = costOfGoodsSold (values initialState)"
    "beginningInventory (values (handleInputChange ''endingInventory'' ''90000'' initialState))
       = beginningInventory (values initialState)"
    "averageInventory (values (handleInputChange ''endingInventory'' ''90000'' initialState))
       = averageInventory (values initialState)"
    "endingInventory (values (handleInputChange ''endingInventory'' ''90000'' initialState))
       = jsor (parseFloat ''90000'') (Fin 0)"
    "method (handleInputChange ''endingInventory'' ''90000'' initialState) = method initialState"
    "values (handleMethodChange ''average'' initialState) = values initialState"
    "method (handleMethodChange ''average'' initialState) = ''average''"
    by blast+
  with p d show ?thesis
    by (cases "values (handleInputChange ''endingInventory'' ''90000'' initialState)")
       (simp add: initialState_def)
qed

end
